theory Spec2Isabelle
  imports Main "HOL-Library.Sublist"
begin

section \<open>JavaScript values as the extension sees them\<close>

text \<open>
  \<^verbatim>\<open>src/extension.js\<close> receives the generator's answer through \<^verbatim>\<open>JSON.parse\<close>, so the
  value it inspects can be any JSON value; reading a property of it can also give
  \<^verbatim>\<open>undefined\<close>. Objects are association lists of their own properties (each key once,
  as the parser leaves them). Numbers are the integers of magnitude below \<open>2^53\<close>, which
  JavaScript holds exactly and prints digit by digit; the source only tests a number for
  truthiness and prints it. Fractions and larger numbers are not represented.
  Strings are byte strings (UTF-8); the source only concatenates them, compares them,
  splits at \<^verbatim>\<open>':'\<close> and reads leading decimal digits, all of which act on ASCII bytes.
\<close>

datatype js_value =
    JUndefined
  | JNull
  | JBool bool
  | JNum int
  | JStr string
  | JArr "js_value list"
  | JObj "(string \<times> js_value) list"

text \<open>What the extension can find in \<^verbatim>\<open>error.code\<close> of a failed child process: the exit
  status, a system error name such as \<^verbatim>\<open>ENOENT\<close>, or \<^verbatim>\<open>null\<close> when a signal ended it.\<close>

datatype exit_code = ExitCode int | SysCode string | NoCode

record exec_error =
  err_code :: exit_code
  err_message :: string

text \<open>Everything the body of the \<^verbatim>\<open>try\<close> block can throw or reject with.\<close>

datatype js_error =
    TypeError string
  | ProcessFailure exec_error
  | MalformedOutput string

fun message :: "js_error \<Rightarrow> string" where
  "message (TypeError m) = m"
| "message (ProcessFailure e) = err_message e"
| "message (MalformedOutput m) = m"

text \<open>ToBoolean, as used by \<^verbatim>\<open>if (x)\<close> and \<^verbatim>\<open>!x\<close>.\<close>

fun truthy :: "js_value \<Rightarrow> bool" where
  "truthy JUndefined = False"
| "truthy JNull = False"
| "truthy (JBool b) = b"
| "truthy (JNum n) = (n \<noteq> 0)"
| "truthy (JStr s) = (s \<noteq> [])"
| "truthy (JArr xs) = True"
| "truthy (JObj kvs) = True"

text \<open>
  Property read \<^verbatim>\<open>v.k\<close> for the names the source uses (\<^verbatim>\<open>error\<close>, \<^verbatim>\<open>commands\<close>,
  \<^verbatim>\<open>length\<close>, \<^verbatim>\<open>command\<close>, \<^verbatim>\<open>description\<close>, \<^verbatim>\<open>safety_level\<close>): it throws on
  \<^verbatim>\<open>null\<close> and \<^verbatim>\<open>undefined\<close> (the message is V8's), arrays and strings have a
  \<^verbatim>\<open>length\<close>, and a missing property reads as \<^verbatim>\<open>undefined\<close>.
\<close>

fun get_prop :: "js_value \<Rightarrow> string \<Rightarrow> js_error + js_value" where
  "get_prop JUndefined k =
     Inl (TypeError (''Cannot read properties of undefined (reading '' @ [CHR 0x27] @ k @ [CHR 0x27] @ '')''))"
| "get_prop JNull k =
     Inl (TypeError (''Cannot read properties of null (reading '' @ [CHR 0x27] @ k @ [CHR 0x27] @ '')''))"
| "get_prop (JBool b) k = Inr JUndefined"
| "get_prop (JNum n) k = Inr JUndefined"
| "get_prop (JStr s) k = Inr (if k = ''length'' then JNum (int (length s)) else JUndefined)"
| "get_prop (JArr xs) k = Inr (if k = ''length'' then JNum (int (length xs)) else JUndefined)"
| "get_prop (JObj kvs) k = Inr (case map_of kvs k of None \<Rightarrow> JUndefined | Some v \<Rightarrow> v)"

subsection \<open>Numbers to text and back\<close>

definition digit_char :: "nat \<Rightarrow> char" where
  "digit_char d = char_of (48 + d)"

text \<open>\<^verbatim>\<open>String(n)\<close> for a non-negative integer: its decimal digits, no leading zero. (The
  source prints an array index plus one, which is below \<open>2^32\<close>.)\<close>

fun nat_to_string :: "nat \<Rightarrow> string" where
  "nat_to_string n =
     (if n < 10 then [digit_char n] else nat_to_string (n div 10) @ [digit_char (n mod 10)])"

declare nat_to_string.simps [simp del]

definition int_to_string :: "int \<Rightarrow> string" where
  "int_to_string i = (if i < 0 then CHR ''-'' # nat_to_string (nat (- i)) else nat_to_string (nat i))"

fun join_strings :: "string list \<Rightarrow> string" where
  "join_strings [] = []"
| "join_strings [s] = s"
| "join_strings (s # t # ts) = s @ '','' @ join_strings (t # ts)"

text \<open>ToString, as a template literal \<^verbatim>\<open>`${v}`\<close> applies it. An array joins its elements
  with commas, \<^verbatim>\<open>null\<close> and \<^verbatim>\<open>undefined\<close> elements printing as nothing.\<close>

fun to_string :: "js_value \<Rightarrow> string" where
  "to_string JUndefined = ''undefined''"
| "to_string JNull = ''null''"
| "to_string (JBool b) = (if b then ''true'' else ''false'')"
| "to_string (JNum n) = int_to_string n"
| "to_string (JStr s) = s"
| "to_string (JArr xs) =
     join_strings (map (\<lambda>x. if x = JNull \<or> x = JUndefined then [] else to_string x) xs)"
| "to_string (JObj kvs) = ''[object Object]''"

text \<open>The white space \<^verbatim>\<open>parseInt\<close> skips, as far as it is ASCII. (JavaScript also skips
  Unicode white space such as U+00A0; the handler applies \<^verbatim>\<open>parseInt\<close> to the head of a
  label, which line 56 starts with a digit.)\<close>

definition is_white :: "char \<Rightarrow> bool" where
  "is_white c = (c \<in> set [CHR '' '', CHR 0x09, CHR 0x0A, CHR 0x0B, CHR 0x0C, CHR 0x0D])"

definition digit_value :: "char \<Rightarrow> nat option" where
  "digit_value c =
     (let n = of_char c :: nat in
      if 48 \<le> n \<and> n \<le> 57 then Some (n - 48)
      else if 97 \<le> n \<and> n \<le> 102 then Some (n - 87)
      else if 65 \<le> n \<and> n \<le> 70 then Some (n - 55)
      else None)"

definition is_digit :: "nat \<Rightarrow> char \<Rightarrow> bool" where
  "is_digit radix c = (case digit_value c of None \<Rightarrow> False | Some d \<Rightarrow> d < radix)"

definition digits_value :: "nat \<Rightarrow> string \<Rightarrow> nat" where
  "digits_value radix ds =
     foldl (\<lambda>a c. radix * a + (case digit_value c of None \<Rightarrow> 0 | Some d \<Rightarrow> d)) 0 ds"

text \<open>
  \<^verbatim>\<open>parseInt(s)\<close> with no radix: skip leading white space, read an optional sign, switch to
  radix 16 after \<^verbatim>\<open>0x\<close>, and take the longest run of digits. \<open>None\<close> is \<^verbatim>\<open>NaN\<close>.
\<close>

definition parseInt :: "string \<Rightarrow> int option" where
  "parseInt s =
     (let s1 = dropWhile is_white s;
          neg = (take 1 s1 = ''-'');
          s2 = (if take 1 s1 = ''-'' \<or> take 1 s1 = ''+'' then drop 1 s1 else s1);
          hex = (take 2 s2 = ''0x'' \<or> take 2 s2 = ''0X'');
          radix = (if hex then 16 else 10);
          ds = takeWhile (is_digit radix) (if hex then drop 2 s2 else s2)
      in if ds = [] then None
         else Some (if neg then - int (digits_value radix ds) else int (digits_value radix ds)))"

text \<open>\<^verbatim>\<open>s.split(':')[0]\<close>: the text before the first colon, all of it when there is none.\<close>

definition split_colon_first :: "string \<Rightarrow> string" where
  "split_colon_first s = takeWhile (\<lambda>c. c \<noteq> CHR '':'') s"

section \<open>The host window and what the workflow does to it\<close>

text \<open>An entry of the multi-select list, as \<^verbatim>\<open>activate\<close> builds it (lines 55-59).\<close>

record quick_pick_item =
  label :: string
  description :: js_value
  detail :: string

text \<open>
  The part of the editor window the workflow reads and changes: the active terminal
  (\<^verbatim>\<open>vscode.window.activeTerminal\<close>, \<open>None\<close> for \<^verbatim>\<open>undefined\<close>) and the number of
  terminals created so far, which names the next one. Terminals are numbered in order
  of creation.
\<close>

record window =
  activeTerminal :: "nat option"
  terminalCount :: nat

text \<open>Every call the workflow makes on the host, in the order it makes them.\<close>

datatype action =
    ShowInputBox
  | WithProgress string
  | ProgressReport string
  | Exec string
  | ShowInformationMessage string
  | ShowErrorMessage string
  | CreateTerminal string
  | TerminalShow nat
  | ShowQuickPick "quick_pick_item list"
  | SendText nat js_value

text \<open>
  What the host answers during one invocation of the command: the text of the input box
  (\<open>None\<close> when dismissed), the path \<^verbatim>\<open>path.join(context.extensionPath, 'clio.py')\<close>,
  the three arguments of the callback of \<^verbatim>\<open>exec\<close>, the result of \<^verbatim>\<open>JSON.parse\<close> on that
  standard output (\<open>None\<close> when it throws), and the answer to the multi-select prompt
  (\<open>None\<close> when dismissed).
\<close>

record invocation =
  inputBox :: "string option"
  scriptPath :: string
  execError :: "exec_error option"
  stdout :: string
  stderr :: string
  jsonParse :: "js_value option"
  quickPick :: "quick_pick_item list option"

section \<open>generateCommands (lines 100-115)\<close>

text \<open>The command line handed to \<^verbatim>\<open>exec\<close>: the template literal of line 102.\<close>

definition command_line :: "string \<Rightarrow> string \<Rightarrow> string" where
  "command_line script query =
     ''python '' @ [CHR 0x22] @ script @ [CHR 0x22] @ '' '' @ [CHR 0x22] @ query @ [CHR 0x22] @ '' --json-only''"

definition generateCommands :: "invocation \<Rightarrow> string \<Rightarrow> string \<Rightarrow> action list \<times> (js_error + js_value)" where
  "generateCommands io script query =
     ([Exec (command_line script query)],
      (case execError io of
         Some e \<Rightarrow>
           if err_code e \<noteq> ExitCode 1 then Inl (ProcessFailure e)
           else (case jsonParse io of
                   Some result \<Rightarrow> Inr result
                 | None \<Rightarrow> Inl (MalformedOutput (''Failed to parse response: '' @ stdout io)))
       | None \<Rightarrow>
           (case jsonParse io of
              Some result \<Rightarrow> Inr result
            | None \<Rightarrow> Inl (MalformedOutput (''Failed to parse response: '' @ stdout io)))))"

section \<open>The command handler (lines 15-85)\<close>

text \<open>One entry of the display list: the callback of \<^verbatim>\<open>map\<close>, lines 55-59.\<close>

definition make_option :: "nat \<Rightarrow> js_value \<Rightarrow> js_error + quick_pick_item" where
  "make_option index cmd =
     (case get_prop cmd ''command'' of
        Inl e \<Rightarrow> Inl e
      | Inr c \<Rightarrow>
          (case get_prop cmd ''description'' of
             Inl e \<Rightarrow> Inl e
           | Inr d \<Rightarrow>
               (case get_prop cmd ''safety_level'' of
                  Inl e \<Rightarrow> Inl e
                | Inr s \<Rightarrow>
                    Inr \<lparr>label = nat_to_string (index + 1) @ '': '' @ to_string c,
                         description = d,
                         detail = ''Safety: '' @ to_string s\<rparr>)))"

text \<open>\<^verbatim>\<open>commands.commands.map(...)\<close>, from the element at \<open>index\<close> on; the first element
  whose callback throws ends it.\<close>

fun make_options :: "nat \<Rightarrow> js_value list \<Rightarrow> js_error + quick_pick_item list" where
  "make_options index [] = Inr []"
| "make_options index (cmd # cmds) =
     (case make_option index cmd of
        Inl e \<Rightarrow> Inl e
      | Inr item \<Rightarrow>
          (case make_options (index + 1) cmds of
             Inl e \<Rightarrow> Inl e
           | Inr items \<Rightarrow> Inr (item # items)))"

text \<open>\<^verbatim>\<open>commands.commands[index]\<close> for \<^verbatim>\<open>index = parseInt(...) - 1\<close>: \<^verbatim>\<open>undefined\<close> when the
  index is \<^verbatim>\<open>NaN\<close>, negative or past the end.\<close>

definition element_at :: "js_value list \<Rightarrow> int option \<Rightarrow> js_value" where
  "element_at xs index =
     (case index of
        None \<Rightarrow> JUndefined
      | Some i \<Rightarrow> if 0 \<le> i \<and> i < int (length xs) then xs ! nat i else JUndefined)"

definition selected_index :: "quick_pick_item \<Rightarrow> int option" where
  "selected_index selected = map_option (\<lambda>n. n - 1) (parseInt (split_colon_first (label selected)))"

text \<open>The loop of lines 77-80. A throw leaves the texts already sent in the terminal.\<close>

fun send_selected :: "js_value list \<Rightarrow> nat \<Rightarrow> quick_pick_item list \<Rightarrow> action list \<times> js_error option" where
  "send_selected cmds terminal [] = ([], None)"
| "send_selected cmds terminal (selected # rest) =
     (case get_prop (element_at cmds (selected_index selected)) ''command'' of
        Inl e \<Rightarrow> ([], Some e)
      | Inr c \<Rightarrow>
          (case send_selected cmds terminal rest of
             (sent, r) \<Rightarrow> (SendText terminal c # sent, r)))"

text \<open>Lines 61-66: take the active terminal or create one named \<^verbatim>\<open>AI CLI\<close>, and show it,
  which makes it the active one.\<close>

definition acquire_terminal :: "window \<Rightarrow> nat \<times> action list \<times> window" where
  "acquire_terminal w =
     (case activeTerminal w of
        Some t \<Rightarrow> (t, [TerminalShow t], w\<lparr>activeTerminal := Some t\<rparr>)
      | None \<Rightarrow>
          (terminalCount w,
           [CreateTerminal ''AI CLI'', TerminalShow (terminalCount w)],
           w\<lparr>activeTerminal := Some (terminalCount w), terminalCount := Suc (terminalCount w)\<rparr>))"

text \<open>Lines 74-80: nothing is done when the prompt was dismissed or nothing was picked;
  otherwise the loop runs over the picked entries.\<close>

definition execute_selected ::
  "js_value list \<Rightarrow> nat \<Rightarrow> quick_pick_item list option \<Rightarrow> action list \<times> js_error option" where
  "execute_selected cmds terminal selectedCommands =
     (case selectedCommands of
        None \<Rightarrow> ([], None)
      | Some selected \<Rightarrow> if selected = [] then ([], None) else send_selected cmds terminal selected)"

text \<open>Lines 54-80, once \<^verbatim>\<open>commands.commands\<close> is known to be truthy and not of length 0.\<close>

definition confirm_and_execute ::
  "invocation \<Rightarrow> js_value \<Rightarrow> window \<Rightarrow> js_error option \<times> action list \<times> window" where
  "confirm_and_execute io cmds w =
     (case cmds of
        JArr xs \<Rightarrow>
          (case make_options 0 xs of
             Inl e \<Rightarrow> (Some e, [], w)
           | Inr options \<Rightarrow>
               (case acquire_terminal w of
                  (terminal, acts, w') \<Rightarrow>
                    (case execute_selected xs terminal (quickPick io) of
                       (sent, r) \<Rightarrow> (r, acts @ [ShowQuickPick options] @ sent, w'))))
      | _ \<Rightarrow> (Some (TypeError ''commands.commands.map is not a function''), [], w))"

text \<open>Lines 39-80: the body of the \<^verbatim>\<open>try\<close> block after \<^verbatim>\<open>generateCommands\<close> has resolved.
  The first component is what it throws, if it does.\<close>

definition present ::
  "invocation \<Rightarrow> js_value \<Rightarrow> window \<Rightarrow> js_error option \<times> action list \<times> window" where
  "present io commands w =
     (case get_prop commands ''error'' of
        Inl e \<Rightarrow> (Some e, [], w)
      | Inr err \<Rightarrow>
          if err = JStr ''No Command Found'' then (None, [ShowInformationMessage ''No Command Found''], w)
          else if truthy err then (None, [ShowErrorMessage (''Error: '' @ to_string err)], w)
          else (case get_prop commands ''commands'' of
                  Inl e \<Rightarrow> (Some e, [], w)
                | Inr cmds \<Rightarrow>
                    if \<not> truthy cmds \<or> get_prop cmds ''length'' = Inr (JNum 0)
                    then (None, [ShowInformationMessage ''No commands generated''], w)
                    else confirm_and_execute io cmds w))"

text \<open>The handler registered for \<^verbatim>\<open>clio.executeCommand\<close>: the calls it makes, and the
  window it leaves.\<close>

definition executeCommand :: "invocation \<Rightarrow> window \<Rightarrow> action list \<times> window" where
  "executeCommand io w =
     (case inputBox io of
        None \<Rightarrow> ([ShowInputBox], w)
      | Some query \<Rightarrow>
          if query = [] then ([ShowInputBox], w)
          else
            (case generateCommands io (scriptPath io) query of
               (ex, Inl e) \<Rightarrow>
                 ([ShowInputBox, WithProgress ''AI CLI'', ProgressReport ''Generating commands...''] @ ex
                    @ [ShowErrorMessage (''Error: '' @ message e)], w)
             | (ex, Inr commands) \<Rightarrow>
                 (case present io commands w of
                    (None, acts, w') \<Rightarrow>
                      ([ShowInputBox, WithProgress ''AI CLI'', ProgressReport ''Generating commands...''] @ ex
                         @ acts, w')
                  | (Some e, acts, w') \<Rightarrow>
                      ([ShowInputBox, WithProgress ''AI CLI'', ProgressReport ''Generating commands...''] @ ex
                         @ acts @ [ShowErrorMessage (''Error: '' @ message e)], w'))))"


section \<open>Reading the trace and the generator's answer\<close>

text \<open>The texts submitted to terminals, in order, each with the terminal it went to.\<close>

fun sent_texts :: "action list \<Rightarrow> (nat \<times> js_value) list" where
  "sent_texts [] = []"
| "sent_texts (SendText t c # acts) = (t, c) # sent_texts acts"
| "sent_texts (a # acts) = sent_texts acts"

text \<open>The number of terminals created.\<close>

fun created_terminals :: "action list \<Rightarrow> nat" where
  "created_terminals [] = 0"
| "created_terminals (CreateTerminal name # acts) = Suc (created_terminals acts)"
| "created_terminals (a # acts) = created_terminals acts"

text \<open>The prompts shown after the input box.\<close>

fun quick_picks :: "action list \<Rightarrow> quick_pick_item list list" where
  "quick_picks [] = []"
| "quick_picks (ShowQuickPick items # acts) = items # quick_picks acts"
| "quick_picks (a # acts) = quick_picks acts"

text \<open>An element of \<^verbatim>\<open>commands\<close> that is a candidate with command text \<open>c\<close>: an object whose
  \<^verbatim>\<open>command\<close> is the string \<open>c\<close>, whatever its other properties.\<close>

definition has_command :: "js_value \<Rightarrow> string \<Rightarrow> bool" where
  "has_command v c = (case v of JObj kvs \<Rightarrow> map_of kvs ''command'' = Some (JStr c) | _ \<Rightarrow> False)"

text \<open>\<^verbatim>\<open>generateCommands\<close> resolves (rather than rejects) when the process ended with
  status 0 (no error object) or with status 1.\<close>

definition exit_accepted :: "invocation \<Rightarrow> bool" where
  "exit_accepted io = (case execError io of None \<Rightarrow> True | Some e \<Rightarrow> err_code e = ExitCode 1)"

text \<open>
  The error object \<^verbatim>\<open>exec\<close> of Node's \<^verbatim>\<open>child_process\<close> gives its callback when the child
  it ran for the command line \<open>cmd\<close> has ended with a non-zero \<open>status\<close>, having written
  \<open>err\<close> to its standard error (the same text the callback gets as \<^verbatim>\<open>stderr\<close>): the code is
  the status, and the message is \<^verbatim>\<open>Command failed: \<close>, the command line, a line feed and
  the standard error text. The extension does not build this object; it receives it.
\<close>

definition command_failed :: "string \<Rightarrow> int \<Rightarrow> string \<Rightarrow> exec_error" where
  "command_failed cmd status err =
     \<lparr>err_code = ExitCode status, err_message = ''Command failed: '' @ cmd @ [CHR 0x0A] @ err\<rparr>"

text \<open>The terminal an invocation uses in window \<open>w\<close> once it reaches line 62.\<close>

definition terminal_of :: "window \<Rightarrow> nat" where
  "terminal_of w = (case activeTerminal w of Some t \<Rightarrow> t | None \<Rightarrow> terminalCount w)"

subsection \<open>The shell's view of the command line\<close>

text \<open>
  \<^verbatim>\<open>exec\<close> hands its string to a shell (\<^verbatim>\<open>/bin/sh -c\<close>). This is the shell's splitting of
  a command line into words (POSIX Shell Command Language, 2.2.3 and 2.6.5) on the
  fragment the template of line 102 is written in: blanks outside double quotes
  separate words, a double quote opens or closes a quoted stretch and is removed, and
  letters, digits and \<^verbatim>\<open>/ . _ -\<close> stand for themselves. Any other character, and a
  quote left open, is outside this fragment: \<open>None\<close>.
\<close>

definition sh_ordinary :: "char \<Rightarrow> bool" where
  "sh_ordinary c =
     (let n = of_char c :: nat in
      (48 \<le> n \<and> n \<le> 57) \<or> (65 \<le> n \<and> n \<le> 90) \<or> (97 \<le> n \<and> n \<le> 122) \<or> c \<in> set ''/._-'')"

fun sh_words_from :: "bool \<Rightarrow> string option \<Rightarrow> string \<Rightarrow> string list option" where
  "sh_words_from quoted word [] =
     (if quoted then None else Some (case word of None \<Rightarrow> [] | Some w \<Rightarrow> [w]))"
| "sh_words_from quoted word (c # cs) =
     (if c = CHR 0x22 then sh_words_from (\<not> quoted) (Some (case word of None \<Rightarrow> [] | Some w \<Rightarrow> w)) cs
      else if c = CHR '' '' \<and> \<not> quoted then
        (case word of
           None \<Rightarrow> sh_words_from False None cs
         | Some w \<Rightarrow> map_option ((#) w) (sh_words_from False None cs))
      else if c = CHR '' '' \<or> sh_ordinary c then
        sh_words_from quoted (Some ((case word of None \<Rightarrow> [] | Some w \<Rightarrow> w) @ [c])) cs
      else None)"

definition sh_words :: "string \<Rightarrow> string list option" where
  "sh_words s = sh_words_from False None s"

section \<open>Decimal text and parseInt\<close>

lemma of_char_digit_char: "d < 10 \<Longrightarrow> (of_char (digit_char d) :: nat) = 48 + d"
  by (simp add: digit_char_def)

lemma digit_value_digit_char: "d < 10 \<Longrightarrow> digit_value (digit_char d) = Some d"
  by (simp add: digit_value_def of_char_digit_char)

lemma is_digit_digit_char: "d < 10 \<Longrightarrow> is_digit 10 (digit_char d)"
  by (simp add: is_digit_def digit_value_digit_char)

lemma digit_char_plain:
  assumes "d < 10"
  shows "digit_char d \<noteq> CHR '':''" "\<not> is_white (digit_char d)"
    "digit_char d \<noteq> CHR ''-''" "digit_char d \<noteq> CHR ''+''"
    "digit_char d \<noteq> CHR ''x''" "digit_char d \<noteq> CHR ''X''"
proof -
  have n: "(of_char (digit_char d) :: nat) = 48 + d"
    using assms by (rule of_char_digit_char)
  have ne: "digit_char d \<noteq> c" if "(of_char c :: nat) < 48 \<or> 57 < (of_char c :: nat)" for c
    using that n assms by auto
  show "digit_char d \<noteq> CHR '':''" by (rule ne) simp
  show "digit_char d \<noteq> CHR ''-''" by (rule ne) simp
  show "digit_char d \<noteq> CHR ''+''" by (rule ne) simp
  show "digit_char d \<noteq> CHR ''x''" by (rule ne) simp
  show "digit_char d \<noteq> CHR ''X''" by (rule ne) simp
  have "digit_char d \<noteq> CHR '' ''" "digit_char d \<noteq> CHR 0x09" "digit_char d \<noteq> CHR 0x0A"
       "digit_char d \<noteq> CHR 0x0B" "digit_char d \<noteq> CHR 0x0C" "digit_char d \<noteq> CHR 0x0D"
    by (rule ne, simp)+
  then show "\<not> is_white (digit_char d)"
    by (simp add: is_white_def)
qed

lemma nat_to_string_digits: "c \<in> set (nat_to_string n) \<Longrightarrow> \<exists>d<10. c = digit_char d"
proof (induction n rule: nat_to_string.induct)
  case (1 n)
  show ?case
  proof (cases "n < 10")
    case True
    with "1.prems" show ?thesis
      by (subst (asm) nat_to_string.simps) auto
  next
    case False
    with "1.prems" have "c \<in> set (nat_to_string (n div 10)) \<or> c = digit_char (n mod 10)"
      by (subst (asm) nat_to_string.simps) auto
    with "1.IH" False show ?thesis
      by (metis mod_less_divisor zero_less_numeral)
  qed
qed

lemma nat_to_string_nonempty: "nat_to_string n \<noteq> []"
  by (subst nat_to_string.simps) simp

lemma digits_value_snoc:
  "digits_value r (ds @ [c]) =
     r * digits_value r ds + (case digit_value c of None \<Rightarrow> 0 | Some d \<Rightarrow> d)"
  by (simp add: digits_value_def)

lemma digits_value_nat_to_string: "digits_value 10 (nat_to_string n) = n"
proof (induction n rule: nat_to_string.induct)
  case (1 n)
  show ?case
  proof (cases "n < 10")
    case True
    then show ?thesis
      by (subst nat_to_string.simps) (simp add: digits_value_def digit_value_digit_char)
  next
    case False
    then have "digits_value 10 (nat_to_string n) =
        10 * digits_value 10 (nat_to_string (n div 10)) +
        (case digit_value (digit_char (n mod 10)) of None \<Rightarrow> 0 | Some d \<Rightarrow> d)"
      by (subst nat_to_string.simps) (simp add: digits_value_snoc)
    also have "\<dots> = 10 * (n div 10) + n mod 10"
      using "1.IH" False by (simp add: digit_value_digit_char)
    finally show ?thesis by simp
  qed
qed

lemma split_colon_first_label: "split_colon_first (nat_to_string n @ CHR '':'' # s) = nat_to_string n"
proof -
  have "c \<noteq> CHR '':''" if "c \<in> set (nat_to_string n)" for c
    using nat_to_string_digits [OF that] digit_char_plain(1) by auto
  then show ?thesis
    unfolding split_colon_first_def by (simp add: takeWhile_append2)
qed

lemma parseInt_nat_to_string: "parseInt (nat_to_string n) = Some (int n)"
proof -
  define s where "s = nat_to_string n"
  obtain c cs where s: "s = c # cs"
    using nat_to_string_nonempty [of n] unfolding s_def by (cases "nat_to_string n") auto
  have all: "\<exists>d<10. x = digit_char d" if "x \<in> set s" for x
    using nat_to_string_digits [of x n] that unfolding s_def by simp
  from all [of c] obtain d where d: "d < 10" "c = digit_char d"
    using s by auto
  have white: "dropWhile is_white s = s"
    using d digit_char_plain(2) s by simp
  have sign: "take 1 s \<noteq> ''-''" "take 1 s \<noteq> ''+''"
    using d digit_char_plain(3,4) s by auto
  have second: "y \<noteq> CHR ''x'' \<and> y \<noteq> CHR ''X''" if "cs = y # ys" for y ys
    using all [of y] digit_char_plain(5,6) that s by auto
  have nohex: "take 2 s \<noteq> ''0x''" "take 2 s \<noteq> ''0X''"
    using second s by (cases cs; simp)+
  have tw: "takeWhile (is_digit 10) s = s"
    using all is_digit_digit_char by (metis takeWhile_eq_all_conv)
  have ne: "s \<noteq> []"
    using s by simp
  have "parseInt s = Some (int (digits_value 10 s))"
    unfolding parseInt_def Let_def
    by (simp only: white sign nohex tw ne simp_thms if_False)
  then show ?thesis
    using digits_value_nat_to_string [of n] unfolding s_def by simp
qed

section \<open>The display list and the way back from a label\<close>

lemma make_option_candidate:
  assumes "has_command v c"
  shows "\<exists>d t. make_option i v = Inr \<lparr>label = nat_to_string (i + 1) @ '': '' @ c, description = d, detail = t\<rparr>"
  using assms by (cases v) (auto simp: has_command_def make_option_def split: option.splits)

lemma get_prop_candidate: "has_command v c \<Longrightarrow> get_prop v ''command'' = Inr (JStr c)"
  by (cases v) (auto simp: has_command_def)

lemma make_options_candidates:
  assumes "list_all2 has_command xs cs"
  shows "\<exists>options. make_options k xs = Inr options \<and> length options = length cs \<and>
     (\<forall>i<length cs. label (options ! i) = nat_to_string (k + i + 1) @ '': '' @ cs ! i)"
  using assms
proof (induction xs cs arbitrary: k rule: list_all2_induct)
  case Nil
  then show ?case by simp
next
  case (Cons x xs c cs)
  from make_option_candidate [OF Cons.hyps(1), of k] obtain d t where
    item: "make_option k x = Inr \<lparr>label = nat_to_string (k + 1) @ '': '' @ c, description = d, detail = t\<rparr>"
    by blast
  from Cons.IH [of "k + 1"] obtain rest where
    rest: "make_options (k + 1) xs = Inr rest" "length rest = length cs"
      "\<And>i. i < length cs \<Longrightarrow> label (rest ! i) = nat_to_string (k + 1 + i + 1) @ '': '' @ cs ! i"
    by blast
  let ?options = "\<lparr>label = nat_to_string (k + 1) @ '': '' @ c, description = d, detail = t\<rparr> # rest"
  have "make_options k (x # xs) = Inr ?options"
    using item rest(1) by simp
  moreover have "length ?options = length (c # cs)"
    using rest(2) by simp
  moreover have "label (?options ! i) = nat_to_string (k + i + 1) @ '': '' @ (c # cs) ! i"
    if "i < length (c # cs)" for i
    using that rest(3) by (cases i) auto
  ultimately show ?case by blast
qed


lemma element_at_index: "i < length xs \<Longrightarrow> element_at xs (Some (int i)) = xs ! i"
  by (simp add: element_at_def)

lemma send_selected_indices:
  assumes cands: "list_all2 has_command xs cs"
    and labels: "\<And>i. i < length cs \<Longrightarrow> selected_index (options ! i) = Some (int i)"
    and range: "\<forall>i\<in>set is. i < length cs"
  shows "send_selected xs t (map ((!) options) is) = (map (\<lambda>i. SendText t (JStr (cs ! i))) is, None)"
  using range
proof (induction "is")
  case Nil
  then show ?case by simp
next
  case (Cons i "is")
  then have i: "i < length cs" by simp
  then have ix: "i < length xs"
    using cands by (simp add: list_all2_lengthD)
  have "has_command (xs ! i) (cs ! i)"
    using cands ix by (simp add: list_all2_nthD)
  then have "get_prop (element_at xs (selected_index (options ! i))) ''command'' = Inr (JStr (cs ! i))"
    using labels [OF i] ix by (simp add: element_at_index get_prop_candidate)
  with Cons show ?case by simp
qed

lemma nat_to_string_small:
  "nat_to_string (Suc 0) = ''1''" "nat_to_string (Suc (Suc 0)) = ''2''"
  "nat_to_string 1 = ''1''" "nat_to_string 2 = ''2''"
  by code_simp+

section \<open>The handler, branch by branch\<close>

lemma generateCommands_accepted:
  "exit_accepted io \<Longrightarrow> jsonParse io = Some commands \<Longrightarrow>
   generateCommands io script query = ([Exec (command_line script query)], Inr commands)"
  by (auto simp: generateCommands_def exit_accepted_def split: option.splits)

lemma executeCommand_resolved:
  assumes "inputBox io = Some query" "query \<noteq> []" "exit_accepted io" "jsonParse io = Some commands"
  shows "executeCommand io w =
     (case present io commands w of
        (None, acts, w') \<Rightarrow>
          ([ShowInputBox, WithProgress ''AI CLI'', ProgressReport ''Generating commands...'',
            Exec (command_line (scriptPath io) query)] @ acts, w')
      | (Some e, acts, w') \<Rightarrow>
          ([ShowInputBox, WithProgress ''AI CLI'', ProgressReport ''Generating commands...'',
            Exec (command_line (scriptPath io) query)] @ acts @ [ShowErrorMessage (''Error: '' @ message e)], w'))"
  using assms by (simp add: executeCommand_def generateCommands_accepted split: prod.splits option.splits)

lemma present_sentinel:
  "get_prop commands ''error'' = Inr (JStr ''No Command Found'') \<Longrightarrow>
   present io commands w = (None, [ShowInformationMessage ''No Command Found''], w)"
  by (simp add: present_def)

text \<open>
  C3. When the \<^verbatim>\<open>error\<close> property of the parsed answer is the string
  \<^verbatim>\<open>No Command Found\<close>, whatever else the answer holds, the handler shows the
  information message \<^verbatim>\<open>No Command Found\<close>, throws nothing, and leaves the window as
  it was; the whole invocation then consists of the input box, the progress report, the
  generator call and that message: no error message, no multi-select, no terminal, no
  text sent.
\<close>

theorem no_command_found_is_informational:
  assumes "get_prop commands ''error'' = Inr (JStr ''No Command Found'')"
  shows "present io commands w = (None, [ShowInformationMessage ''No Command Found''], w) \<and>
    (inputBox io = Some query \<and> query \<noteq> [] \<and> exit_accepted io \<and> jsonParse io = Some commands \<longrightarrow>
     executeCommand io w =
       ([ShowInputBox, WithProgress ''AI CLI'', ProgressReport ''Generating commands...'',
         Exec (command_line (scriptPath io) query), ShowInformationMessage ''No Command Found''], w))"
  using assms by (simp add: executeCommand_resolved present_sentinel)

theorem no_command_found_is_informational_witness:
  "get_prop (JObj [(''error'', JStr ''No Command Found''),
                   (''commands'', JArr [JObj [(''command'', JStr ''ls''), (''description'', JStr ''List''),
                                              (''safety_level'', JStr ''safe'')]])]) ''error''
     = Inr (JStr ''No Command Found'') \<and>
   executeCommand
     \<lparr>inputBox = Some ''list files'', scriptPath = ''/ext/clio.py'',
      execError = Some \<lparr>err_code = ExitCode 1, err_message = ''Command failed''\<rparr>,
      stdout = ''{}'', stderr = '''',
      jsonParse = Some (JObj [(''error'', JStr ''No Command Found''),
                   (''commands'', JArr [JObj [(''command'', JStr ''ls''), (''description'', JStr ''List''),
                                              (''safety_level'', JStr ''safe'')]])]),
      quickPick = Some [\<lparr>label = ''1: ls'', description = JStr ''List'', detail = ''Safety: safe''\<rparr>]\<rparr>
     \<lparr>activeTerminal = None, terminalCount = 0\<rparr> =
   ([ShowInputBox, WithProgress ''AI CLI'', ProgressReport ''Generating commands...'',
     Exec (command_line ''/ext/clio.py'' ''list files''), ShowInformationMessage ''No Command Found''],
    \<lparr>activeTerminal = None, terminalCount = 0\<rparr>)"
proof -
  let ?v = "JObj [(''error'', JStr ''No Command Found''),
                   (''commands'', JArr [JObj [(''command'', JStr ''ls''), (''description'', JStr ''List''),
                                              (''safety_level'', JStr ''safe'')]])]"
  have h: "get_prop ?v ''error'' = Inr (JStr ''No Command Found'')"
    by simp
  show ?thesis
    using no_command_found_is_informational [OF h, where query = "''list files''"
        and w = "\<lparr>activeTerminal = None, terminalCount = 0\<rparr>"
        and io = "\<lparr>inputBox = Some ''list files'', scriptPath = ''/ext/clio.py'',
      execError = Some \<lparr>err_code = ExitCode 1, err_message = ''Command failed''\<rparr>,
      stdout = ''{}'', stderr = '''',
      jsonParse = Some ?v,
      quickPick = Some [\<lparr>label = ''1: ls'', description = JStr ''List'', detail = ''Safety: safe''\<rparr>]\<rparr>"]
    by (simp add: exit_accepted_def)
qed

lemma present_error_text:
  "get_prop commands ''error'' = Inr (JStr msg) \<Longrightarrow> msg \<noteq> ''No Command Found'' \<Longrightarrow> msg \<noteq> [] \<Longrightarrow>
   present io commands w = (None, [ShowErrorMessage (''Error: '' @ msg)], w)"
  by (simp add: present_def)

lemma present_nothing_generated:
  "get_prop commands ''error'' = Inr JUndefined \<Longrightarrow>
   get_prop commands ''commands'' = Inr JUndefined \<or> get_prop commands ''commands'' = Inr (JArr []) \<Longrightarrow>
   present io commands w = (None, [ShowInformationMessage ''No commands generated''], w)"
  by (auto simp: present_def)

lemma generateCommands_rejected:
  "execError io = Some e \<Longrightarrow> err_code e \<noteq> ExitCode 1 \<Longrightarrow>
   generateCommands io script query = ([Exec (command_line script query)], Inl (ProcessFailure e))"
  by (simp add: generateCommands_def)

lemma generateCommands_exit_one:
  "execError io = Some e \<Longrightarrow> err_code e = ExitCode 1 \<Longrightarrow>
   generateCommands io script query = generateCommands (io\<lparr>execError := None\<rparr>) script query"
  by (cases "jsonParse io") (simp_all add: generateCommands_def)

lemma executeCommand_rejected:
  assumes "inputBox io = Some query" "query \<noteq> []" "execError io = Some e" "err_code e \<noteq> ExitCode 1"
  shows "executeCommand io w =
     ([ShowInputBox, WithProgress ''AI CLI'', ProgressReport ''Generating commands...'',
       Exec (command_line (scriptPath io) query), ShowErrorMessage (''Error: '' @ err_message e)], w)"
  using assms by (simp add: executeCommand_def generateCommands_rejected)

text \<open>
  C4. When the generator process ends with status 1, \<^verbatim>\<open>generateCommands\<close> does what it does
  when the process ends with status 0: it resolves with the parsed standard output (or
  rejects because the output does not parse). When the error object of the process has
  any other code, it rejects with that error object, and the invocation ends with an
  error message that carries the error object's message; no multi-select is shown, no
  terminal is touched and nothing is sent. When that error object is the one the runtime
  makes for a child that ended with a status other than 1, the error message shown is
  \<^verbatim>\<open>Error: Command failed: \<close>, the command line, a line feed and what the process wrote
  to its standard error: the notice ends with the diagnostic output of the process.
\<close>

theorem exit_one_parsed_other_codes_fail:
  assumes "execError io = Some e"
  shows "(err_code e = ExitCode 1 \<longrightarrow>
       generateCommands io script query = generateCommands (io\<lparr>execError := None\<rparr>) script query \<and>
       snd (generateCommands io script query) =
         (case jsonParse io of
            Some result \<Rightarrow> Inr result
          | None \<Rightarrow> Inl (MalformedOutput (''Failed to parse response: '' @ stdout io)))) \<and>
     (err_code e \<noteq> ExitCode 1 \<longrightarrow>
       snd (generateCommands io script query) = Inl (ProcessFailure e) \<and>
       (inputBox io = Some query \<and> query \<noteq> [] \<longrightarrow>
        executeCommand io w =
          ([ShowInputBox, WithProgress ''AI CLI'', ProgressReport ''Generating commands...'',
            Exec (command_line (scriptPath io) query), ShowErrorMessage (''Error: '' @ err_message e)], w))) \<and>
     (e = command_failed (command_line (scriptPath io) query) status (stderr io) \<and> status \<noteq> 1 \<and>
      inputBox io = Some query \<and> query \<noteq> [] \<longrightarrow>
        executeCommand io w =
          ([ShowInputBox, WithProgress ''AI CLI'', ProgressReport ''Generating commands...'',
            Exec (command_line (scriptPath io) query),
            ShowErrorMessage (''Error: Command failed: '' @ command_line (scriptPath io) query @ [CHR 0x0A] @ stderr io)],
           w) \<and>
        suffix (stderr io)
          (''Error: Command failed: '' @ command_line (scriptPath io) query @ [CHR 0x0A] @ stderr io))"
proof (intro conjI impI)
  assume one: "err_code e = ExitCode 1"
  show "generateCommands io script query = generateCommands (io\<lparr>execError := None\<rparr>) script query"
    using assms one by (rule generateCommands_exit_one)
  show "snd (generateCommands io script query) =
         (case jsonParse io of
            Some result \<Rightarrow> Inr result
          | None \<Rightarrow> Inl (MalformedOutput (''Failed to parse response: '' @ stdout io)))"
    using assms one by (simp add: generateCommands_def)
next
  assume other: "err_code e \<noteq> ExitCode 1"
  show "snd (generateCommands io script query) = Inl (ProcessFailure e)"
    using assms other by (simp add: generateCommands_rejected)
  assume "inputBox io = Some query \<and> query \<noteq> []"
  then show "executeCommand io w =
          ([ShowInputBox, WithProgress ''AI CLI'', ProgressReport ''Generating commands...'',
            Exec (command_line (scriptPath io) query), ShowErrorMessage (''Error: '' @ err_message e)], w)"
    using assms other by (simp add: executeCommand_rejected)
next
  assume failed: "e = command_failed (command_line (scriptPath io) query) status (stderr io) \<and> status \<noteq> 1 \<and>
      inputBox io = Some query \<and> query \<noteq> []"
  then have code: "err_code e \<noteq> ExitCode 1"
    and msg: "err_message e = ''Command failed: '' @ command_line (scriptPath io) query @ [CHR 0x0A] @ stderr io"
    by (simp_all add: command_failed_def)
  from failed have "executeCommand io w =
      ([ShowInputBox, WithProgress ''AI CLI'', ProgressReport ''Generating commands...'',
        Exec (command_line (scriptPath io) query), ShowErrorMessage (''Error: '' @ err_message e)], w)"
    using assms code by (intro executeCommand_rejected) simp_all
  then show "executeCommand io w =
          ([ShowInputBox, WithProgress ''AI CLI'', ProgressReport ''Generating commands...'',
            Exec (command_line (scriptPath io) query),
            ShowErrorMessage (''Error: Command failed: '' @ command_line (scriptPath io) query @ [CHR 0x0A] @ stderr io)],
           w)"
    by (simp add: msg)
next
  show "suffix (stderr io)
          (''Error: Command failed: '' @ command_line (scriptPath io) query @ [CHR 0x0A] @ stderr io)"
    by (rule suffixI [of _ "''Error: Command failed: '' @ command_line (scriptPath io) query @ [CHR 0x0A]"]) simp
qed

theorem exit_one_parsed_other_codes_fail_witness:
  "snd (generateCommands
     \<lparr>inputBox = Some ''list docker containers'', scriptPath = ''/ext/clio.py'',
      execError = Some (command_failed (command_line ''/ext/clio.py'' ''list docker containers'') 1 ''''),
      stdout = ''{}'', stderr = '''',
      jsonParse = Some (JObj [(''error'', JStr ''No Command Found'')]),
      quickPick = None\<rparr> ''/ext/clio.py'' ''list docker containers'') =
     Inr (JObj [(''error'', JStr ''No Command Found'')]) \<and>
   executeCommand
     \<lparr>inputBox = Some ''list docker containers'', scriptPath = ''/ext/clio.py'',
      execError = Some (command_failed (command_line ''/ext/clio.py'' ''list docker containers'') 2
                          ''network timeout''),
      stdout = '''', stderr = ''network timeout'',
      jsonParse = None,
      quickPick = None\<rparr>
     \<lparr>activeTerminal = None, terminalCount = 0\<rparr> =
   ([ShowInputBox, WithProgress ''AI CLI'', ProgressReport ''Generating commands...'',
     Exec (command_line ''/ext/clio.py'' ''list docker containers''),
     ShowErrorMessage (''Error: Command failed: '' @ command_line ''/ext/clio.py'' ''list docker containers'' @
       [CHR 0x0A] @ ''network timeout'')],
    \<lparr>activeTerminal = None, terminalCount = 0\<rparr>) \<and>
   suffix ''network timeout''
     (''Error: Command failed: '' @ command_line ''/ext/clio.py'' ''list docker containers'' @
       [CHR 0x0A] @ ''network timeout'')"
proof -
  let ?cmd = "command_line ''/ext/clio.py'' ''list docker containers''"
  let ?one = "\<lparr>inputBox = Some ''list docker containers'', scriptPath = ''/ext/clio.py'',
      execError = Some (command_failed ?cmd 1 ''''),
      stdout = ''{}'', stderr = '''',
      jsonParse = Some (JObj [(''error'', JStr ''No Command Found'')]),
      quickPick = None\<rparr>"
  let ?two = "\<lparr>inputBox = Some ''list docker containers'', scriptPath = ''/ext/clio.py'',
      execError = Some (command_failed ?cmd 2 ''network timeout''),
      stdout = '''', stderr = ''network timeout'',
      jsonParse = None,
      quickPick = None\<rparr>"
  have h1: "execError ?one = Some (command_failed ?cmd 1 '''')"
    by simp
  have h2: "execError ?two = Some (command_failed ?cmd 2 ''network timeout'')"
    by simp
  have one: "err_code (command_failed ?cmd 1 '''') = ExitCode 1"
    by (simp add: command_failed_def)
  have two: "command_failed ?cmd 2 ''network timeout'' =
      command_failed (command_line (scriptPath ?two) ''list docker containers'') 2 (stderr ?two) \<and>
      (2 :: int) \<noteq> 1 \<and> inputBox ?two = Some ''list docker containers'' \<and> ''list docker containers'' \<noteq> []"
    by simp
  note parsed = exit_one_parsed_other_codes_fail [OF h1, of "''/ext/clio.py''" "''list docker containers''",
      THEN conjunct1, THEN mp, OF one, THEN conjunct2]
  note failed = exit_one_parsed_other_codes_fail [OF h2, where query = "''list docker containers''"
      and status = 2 and w = "\<lparr>activeTerminal = None, terminalCount = 0\<rparr>",
      THEN conjunct2, THEN conjunct2, THEN mp, OF two]
  show ?thesis
    using parsed failed by simp
qed

text \<open>
  C5, as the code has it. When the input box is dismissed or left empty, the invocation
  ends there: the input box is the only call made, no generator process is started, and
  the window is unchanged. (Input that is not the empty string is passed to the
  generator as it is, blanks included: the handler does not trim.)
\<close>

theorem empty_query_aborts:
  assumes "inputBox io = None \<or> inputBox io = Some []"
  shows "executeCommand io w = ([ShowInputBox], w)"
  using assms by (auto simp: executeCommand_def)

theorem empty_query_aborts_witness:
  "executeCommand
     \<lparr>inputBox = Some [], scriptPath = ''/ext/clio.py'', execError = None,
      stdout = ''{}'', stderr = '''', jsonParse = Some (JObj []), quickPick = None\<rparr>
     \<lparr>activeTerminal = None, terminalCount = 0\<rparr> =
   ([ShowInputBox], \<lparr>activeTerminal = None, terminalCount = 0\<rparr>)"
  using empty_query_aborts [of "\<lparr>inputBox = Some [], scriptPath = ''/ext/clio.py'', execError = None,
      stdout = ''{}'', stderr = '''', jsonParse = Some (JObj []), quickPick = None\<rparr>"
      "\<lparr>activeTerminal = None, terminalCount = 0\<rparr>"]
  by simp

text \<open>
  C5 as stated fails for input that is only blanks: a query of one blank is not the empty
  string, so the generator is run with it.
\<close>

theorem blank_query_reaches_generator:
  "list_all is_white '' '' \<and>
   executeCommand
     \<lparr>inputBox = Some '' '', scriptPath = ''/ext/clio.py'', execError = None,
      stdout = ''{}'', stderr = '''', jsonParse = Some (JObj []), quickPick = None\<rparr>
     \<lparr>activeTerminal = None, terminalCount = 0\<rparr> =
   ([ShowInputBox, WithProgress ''AI CLI'', ProgressReport ''Generating commands...'',
     Exec (''python '' @ [CHR 0x22] @ ''/ext/clio.py'' @ [CHR 0x22] @ '' '' @ [CHR 0x22] @ '' '' @ [CHR 0x22] @ '' --json-only''),
     ShowInformationMessage ''No commands generated''],
    \<lparr>activeTerminal = None, terminalCount = 0\<rparr>)"
  by (simp add: is_white_def executeCommand_def generateCommands_def present_def command_line_def)

text \<open>
  C6, as the code has it. When the \<^verbatim>\<open>error\<close> property of the parsed answer is a string that
  is neither empty nor \<^verbatim>\<open>No Command Found\<close>, the handler shows one error message, the
  text \<^verbatim>\<open>Error: \<close> followed by that string unchanged, and does nothing else; the whole
  invocation then ends with that message. (An empty \<^verbatim>\<open>error\<close> string is falsy and is
  treated as no error.)
\<close>

theorem error_message_shown_verbatim:
  assumes "get_prop commands ''error'' = Inr (JStr msg)" "msg \<noteq> ''No Command Found''" "msg \<noteq> []"
  shows "present io commands w = (None, [ShowErrorMessage (''Error: '' @ msg)], w) \<and>
    (inputBox io = Some query \<and> query \<noteq> [] \<and> exit_accepted io \<and> jsonParse io = Some commands \<longrightarrow>
     executeCommand io w =
       ([ShowInputBox, WithProgress ''AI CLI'', ProgressReport ''Generating commands...'',
         Exec (command_line (scriptPath io) query), ShowErrorMessage (''Error: '' @ msg)], w))"
  using assms by (simp add: executeCommand_resolved present_error_text)

theorem error_message_shown_verbatim_witness:
  "present
     \<lparr>inputBox = Some ''push my code'', scriptPath = ''/ext/clio.py'', execError = None,
      stdout = ''{}'', stderr = '''',
      jsonParse = Some (JObj [(''error'', JStr ''API key: invalid'')]), quickPick = None\<rparr>
     (JObj [(''error'', JStr ''API key: invalid'')])
     \<lparr>activeTerminal = None, terminalCount = 0\<rparr> =
   (None, [ShowErrorMessage ''Error: API key: invalid''], \<lparr>activeTerminal = None, terminalCount = 0\<rparr>) \<and>
   executeCommand
     \<lparr>inputBox = Some ''push my code'', scriptPath = ''/ext/clio.py'', execError = None,
      stdout = ''{}'', stderr = '''',
      jsonParse = Some (JObj [(''error'', JStr ''API key: invalid'')]), quickPick = None\<rparr>
     \<lparr>activeTerminal = None, terminalCount = 0\<rparr> =
   ([ShowInputBox, WithProgress ''AI CLI'', ProgressReport ''Generating commands...'',
     Exec (command_line ''/ext/clio.py'' ''push my code''), ShowErrorMessage ''Error: API key: invalid''],
    \<lparr>activeTerminal = None, terminalCount = 0\<rparr>)"
proof -
  have h: "get_prop (JObj [(''error'', JStr ''API key: invalid'')]) ''error'' = Inr (JStr ''API key: invalid'')"
    by simp
  have n: "''API key: invalid'' \<noteq> ''No Command Found''" "''API key: invalid'' \<noteq> []"
    by simp_all
  show ?thesis
    using error_message_shown_verbatim [OF h n, where query = "''push my code''"
        and w = "\<lparr>activeTerminal = None, terminalCount = 0\<rparr>"
        and io = "\<lparr>inputBox = Some ''push my code'', scriptPath = ''/ext/clio.py'', execError = None,
      stdout = ''{}'', stderr = '''',
      jsonParse = Some (JObj [(''error'', JStr ''API key: invalid'')]), quickPick = None\<rparr>"]
    by (simp add: exit_accepted_def)
qed

text \<open>
  C6 as stated fails for the empty string: with \<^verbatim>\<open>{"error": ""}\<close> no error message is shown;
  the handler goes on to the \<^verbatim>\<open>commands\<close> test and reports that nothing was generated.
\<close>

theorem empty_error_string_is_not_failure:
  "get_prop (JObj [(''error'', JStr '''')]) ''error'' = Inr (JStr '''') \<and>
   present
     \<lparr>inputBox = Some ''push my code'', scriptPath = ''/ext/clio.py'', execError = None,
      stdout = ''{}'', stderr = '''',
      jsonParse = Some (JObj [(''error'', JStr '''')]), quickPick = None\<rparr>
     (JObj [(''error'', JStr '''')])
     \<lparr>activeTerminal = None, terminalCount = 0\<rparr> =
   (None, [ShowInformationMessage ''No commands generated''], \<lparr>activeTerminal = None, terminalCount = 0\<rparr>)"
  by (simp add: present_def)

text \<open>
  C9, as the code has it. When the parsed answer has no \<^verbatim>\<open>error\<close> property and its
  \<^verbatim>\<open>commands\<close> property is missing or is the empty array, the handler shows the
  information message \<^verbatim>\<open>No commands generated\<close>, throws nothing and leaves the window as
  it was; the whole invocation then ends with that message: no multi-select, no
  terminal, no text sent.
\<close>

theorem nothing_generated_is_informational:
  assumes "get_prop commands ''error'' = Inr JUndefined"
    and "get_prop commands ''commands'' = Inr JUndefined \<or> get_prop commands ''commands'' = Inr (JArr [])"
  shows "present io commands w = (None, [ShowInformationMessage ''No commands generated''], w) \<and>
    (inputBox io = Some query \<and> query \<noteq> [] \<and> exit_accepted io \<and> jsonParse io = Some commands \<longrightarrow>
     executeCommand io w =
       ([ShowInputBox, WithProgress ''AI CLI'', ProgressReport ''Generating commands...'',
         Exec (command_line (scriptPath io) query), ShowInformationMessage ''No commands generated''], w))"
  using assms by (simp add: executeCommand_resolved present_nothing_generated)

theorem nothing_generated_is_informational_witness:
  "executeCommand
     \<lparr>inputBox = Some ''push my code'', scriptPath = ''/ext/clio.py'', execError = None,
      stdout = ''{}'', stderr = '''',
      jsonParse = Some (JObj [(''commands'', JArr [])]), quickPick = None\<rparr>
     \<lparr>activeTerminal = None, terminalCount = 0\<rparr> =
   ([ShowInputBox, WithProgress ''AI CLI'', ProgressReport ''Generating commands...'',
     Exec (command_line ''/ext/clio.py'' ''push my code''), ShowInformationMessage ''No commands generated''],
    \<lparr>activeTerminal = None, terminalCount = 0\<rparr>)"
proof -
  have h: "get_prop (JObj [(''commands'', JArr [])]) ''error'' = Inr JUndefined"
    by simp
  have c: "get_prop (JObj [(''commands'', JArr [])]) ''commands'' = Inr JUndefined \<or>
      get_prop (JObj [(''commands'', JArr [])]) ''commands'' = Inr (JArr [])"
    by simp
  show ?thesis
    using nothing_generated_is_informational [OF h c, where query = "''push my code''"
        and w = "\<lparr>activeTerminal = None, terminalCount = 0\<rparr>"
        and io = "\<lparr>inputBox = Some ''push my code'', scriptPath = ''/ext/clio.py'', execError = None,
      stdout = ''{}'', stderr = '''',
      jsonParse = Some (JObj [(''commands'', JArr [])]), quickPick = None\<rparr>"]
    by (simp add: exit_accepted_def)
qed

text \<open>
  C9 as stated fails on the text of the message: for \<^verbatim>\<open>{"commands": []}\<close> the message
  is \<^verbatim>\<open>No commands generated\<close>, not \<^verbatim>\<open>No Command Found\<close>.
\<close>

theorem nothing_generated_message_differs:
  "present
     \<lparr>inputBox = Some ''push my code'', scriptPath = ''/ext/clio.py'', execError = None,
      stdout = ''{}'', stderr = '''',
      jsonParse = Some (JObj [(''commands'', JArr [])]), quickPick = None\<rparr>
     (JObj [(''commands'', JArr [])])
     \<lparr>activeTerminal = None, terminalCount = 0\<rparr> =
   (None, [ShowInformationMessage ''No commands generated''], \<lparr>activeTerminal = None, terminalCount = 0\<rparr>) \<and>
   ShowInformationMessage ''No commands generated'' \<noteq> ShowInformationMessage ''No Command Found''"
  by (simp add: present_def)

section \<open>What an invocation leaves behind\<close>

lemma sent_texts_append: "sent_texts (as @ bs) = sent_texts as @ sent_texts bs"
  by (induction as rule: sent_texts.induct) simp_all


lemma quick_picks_append: "quick_picks (as @ bs) = quick_picks as @ quick_picks bs"
  by (induction as rule: quick_picks.induct) simp_all

lemma send_selected_trace:
  "send_selected xs t sel = (sent, r) \<Longrightarrow>
   created_terminals sent = 0 \<and> quick_picks sent = [] \<and> (\<forall>p\<in>set (sent_texts sent). fst p = t)"
proof (induction sel arbitrary: sent r)
  case Nil
  then show ?case by simp
next
  case (Cons s sel)
  show ?case
  proof (cases "get_prop (element_at xs (selected_index s)) ''command''")
    case (Inl e)
    with Cons.prems show ?thesis by simp
  next
    case (Inr c)
    obtain sent' r' where rest: "send_selected xs t sel = (sent', r')"
      by (cases "send_selected xs t sel")
    with Cons.prems Inr have "sent = SendText t c # sent'"
      by simp
    with Cons.IH [OF rest] show ?thesis by simp
  qed
qed

lemma execute_selected_trace:
  assumes "execute_selected xs t picked = (sent, r)"
  shows "created_terminals sent = 0 \<and> quick_picks sent = [] \<and> (\<forall>p\<in>set (sent_texts sent). fst p = t) \<and>
    (picked = None \<or> picked = Some [] \<longrightarrow> sent = [])"
proof (cases "picked = None \<or> picked = Some []")
  case True
  with assms show ?thesis by (auto simp: execute_selected_def)
next
  case False
  with assms have "send_selected xs t (the picked) = (sent, r)"
    by (auto simp: execute_selected_def split: option.splits if_splits)
  from send_selected_trace [OF this] False show ?thesis by blast
qed

lemma acquire_terminal_eq:
  "acquire_terminal w =
     (terminal_of w,
      (if activeTerminal w = None then [CreateTerminal ''AI CLI''] else []) @ [TerminalShow (terminal_of w)],
      w\<lparr>activeTerminal := Some (terminal_of w),
        terminalCount := terminalCount w + (if activeTerminal w = None then 1 else 0)\<rparr>)"
  by (cases "activeTerminal w") (simp_all add: acquire_terminal_def terminal_of_def)


















section \<open>Dismissing a prompt\<close>








section \<open>Sending the picked commands\<close>


lemma present_confirm:
  assumes "get_prop commands ''error'' = Inr err" "\<not> truthy err"
    "get_prop commands ''commands'' = Inr (JArr xs)" "xs \<noteq> []"
  shows "present io commands w = confirm_and_execute io (JArr xs) w"
proof -
  from assms(2) have "err \<noteq> JStr ''No Command Found''"
    by auto
  with assms show ?thesis
    by (simp add: present_def)
qed

lemma confirm_and_execute_shown:
  assumes "make_options 0 xs = Inr options" "execute_selected xs (terminal_of w) (quickPick io) = (sent, r)"
  shows "confirm_and_execute io (JArr xs) w =
     (r, fst (snd (acquire_terminal w)) @ [ShowQuickPick options] @ sent, snd (snd (acquire_terminal w)))"
  using assms by (simp add: confirm_and_execute_def acquire_terminal_eq)







section \<open>From the display list back to the candidate\<close>

lemma executeCommand_generated:
  assumes "inputBox io = Some query" "query \<noteq> []" "exit_accepted io" "jsonParse io = Some commands"
    and "get_prop commands ''error'' = Inr err" "\<not> truthy err"
    and "get_prop commands ''commands'' = Inr (JArr xs)" "xs \<noteq> []"
    and "make_options 0 xs = Inr options"
    and "execute_selected xs (terminal_of w) (quickPick io) = (sent, r)"
  shows "executeCommand io w =
      ([ShowInputBox, WithProgress ''AI CLI'', ProgressReport ''Generating commands...'',
        Exec (command_line (scriptPath io) query)] @ fst (snd (acquire_terminal w)) @
       [ShowQuickPick options] @ sent @
       (case r of None \<Rightarrow> [] | Some e \<Rightarrow> [ShowErrorMessage (''Error: '' @ message e)]),
       snd (snd (acquire_terminal w)))"
proof -
  have "present io commands w = confirm_and_execute io (JArr xs) w"
    using assms(5-8) by (rule present_confirm)
  then have "present io commands w =
      (r, fst (snd (acquire_terminal w)) @ [ShowQuickPick options] @ sent, snd (snd (acquire_terminal w)))"
    using confirm_and_execute_shown [OF assms(9,10)] by simp
  then show ?thesis
    using executeCommand_resolved [OF assms(1-4), of w] by (cases r) simp_all
qed

lemma executeCommand_shows_options:
  assumes "inputBox io = Some query" "query \<noteq> []" "exit_accepted io" "jsonParse io = Some commands"
    and "get_prop commands ''error'' = Inr err" "\<not> truthy err"
    and "get_prop commands ''commands'' = Inr (JArr xs)" "xs \<noteq> []"
    and "make_options 0 xs = Inr options"
  shows "quick_picks (fst (executeCommand io w)) = [options]"
proof -
  obtain sent r where picked: "execute_selected xs (terminal_of w) (quickPick io) = (sent, r)"
    by (cases "execute_selected xs (terminal_of w) (quickPick io)")
  from execute_selected_trace [OF picked] have "quick_picks sent = []"
    by simp
  moreover have "quick_picks (case r of None \<Rightarrow> [] | Some e \<Rightarrow> [ShowErrorMessage (''Error: '' @ message e)]) = []"
    by (cases r) simp_all
  ultimately show ?thesis
    by (simp add: executeCommand_generated [OF assms picked] acquire_terminal_eq quick_picks_append)
qed

text \<open>
  C1. Let the generator's array \<open>xs\<close> hold candidates with command texts \<open>cs\<close>. The display
  list is built without error and has one entry per candidate; entry \<open>i\<close> (counting from 0)
  is labelled with the decimal text of \<open>i + 1\<close>, a colon, a blank and the command text; the
  integer parsed from the part of that label before its first colon, less one, is \<open>i\<close>
  again, whatever the command text contains; the element looked up there is the
  candidate itself; and for a selection made of any of the entries, in any order and
  number, the loop sends the terminal exactly the command texts of the candidates
  selected. In the handler: for a non-empty query whose generation succeeds with this
  array, the one multi-select the invocation shows is this display list, and when the
  entries picked in it are those numbered \<open>is\<close>, the invocation ends by sending the
  terminal the command text of candidate \<open>i\<close> for each \<open>i\<close> of \<open>is\<close>, and sends nothing
  else.
\<close>

theorem label_resolves_to_candidate:
  assumes "list_all2 has_command xs cs"
  shows "\<exists>options. make_options 0 xs = Inr options \<and> length options = length cs \<and>
     (\<forall>i<length cs.
        label (options ! i) = nat_to_string (i + 1) @ '': '' @ cs ! i \<and>
        selected_index (options ! i) = Some (int i) \<and>
        element_at xs (selected_index (options ! i)) = xs ! i \<and>
        get_prop (xs ! i) ''command'' = Inr (JStr (cs ! i))) \<and>
     (\<forall>is. (\<forall>i\<in>set is. i < length cs) \<longrightarrow>
        send_selected xs t (map ((!) options) is) = (map (\<lambda>i. SendText t (JStr (cs ! i))) is, None)) \<and>
     (inputBox io = Some query \<and> query \<noteq> [] \<and> exit_accepted io \<and> jsonParse io = Some commands \<and>
      get_prop commands ''error'' = Inr err \<and> \<not> truthy err \<and>
      get_prop commands ''commands'' = Inr (JArr xs) \<and> cs \<noteq> [] \<longrightarrow>
        quick_picks (fst (executeCommand io w)) = [options] \<and>
        (\<forall>is. is \<noteq> [] \<and> (\<forall>i\<in>set is. i < length cs) \<and> quickPick io = Some (map ((!) options) is) \<longrightarrow>
           executeCommand io w =
             ([ShowInputBox, WithProgress ''AI CLI'', ProgressReport ''Generating commands...'',
               Exec (command_line (scriptPath io) query)] @ fst (snd (acquire_terminal w)) @
              [ShowQuickPick options] @ map (\<lambda>i. SendText (terminal_of w) (JStr (cs ! i))) is,
              snd (snd (acquire_terminal w))) \<and>
           sent_texts (fst (executeCommand io w)) = map (\<lambda>i. (terminal_of w, JStr (cs ! i))) is))"
proof -
  from make_options_candidates [OF assms, of 0] obtain options where
    options: "make_options 0 xs = Inr options" "length options = length cs"
    and labels: "\<And>i. i < length cs \<Longrightarrow> label (options ! i) = nat_to_string (i + 1) @ '': '' @ cs ! i"
    by auto
  have len: "length xs = length cs"
    using assms by (rule list_all2_lengthD)
  have index: "selected_index (options ! i) = Some (int i)" if "i < length cs" for i
    using parseInt_nat_to_string [of "i + 1"] labels [OF that]
    by (simp add: selected_index_def split_colon_first_label)
  have elem: "element_at xs (selected_index (options ! i)) = xs ! i" if "i < length cs" for i
    using index [OF that] that len by (simp add: element_at_index)
  have cmd: "get_prop (xs ! i) ''command'' = Inr (JStr (cs ! i))" if "i < length cs" for i
    using assms that len by (simp add: list_all2_nthD get_prop_candidate)
  have sent: "send_selected xs u (map ((!) options) is) = (map (\<lambda>i. SendText u (JStr (cs ! i))) is, None)"
    if "\<forall>i\<in>set is. i < length cs" for "is" u
    using assms index that by (rule send_selected_indices)
  have handler: "quick_picks (fst (executeCommand io w)) = [options] \<and>
        (\<forall>is. is \<noteq> [] \<and> (\<forall>i\<in>set is. i < length cs) \<and> quickPick io = Some (map ((!) options) is) \<longrightarrow>
           executeCommand io w =
             ([ShowInputBox, WithProgress ''AI CLI'', ProgressReport ''Generating commands...'',
               Exec (command_line (scriptPath io) query)] @ fst (snd (acquire_terminal w)) @
              [ShowQuickPick options] @ map (\<lambda>i. SendText (terminal_of w) (JStr (cs ! i))) is,
              snd (snd (acquire_terminal w))) \<and>
           sent_texts (fst (executeCommand io w)) = map (\<lambda>i. (terminal_of w, JStr (cs ! i))) is)"
    if gen: "inputBox io = Some query \<and> query \<noteq> [] \<and> exit_accepted io \<and> jsonParse io = Some commands \<and>
      get_prop commands ''error'' = Inr err \<and> \<not> truthy err \<and>
      get_prop commands ''commands'' = Inr (JArr xs) \<and> cs \<noteq> []"
  proof -
    from gen len have g: "inputBox io = Some query" "query \<noteq> []" "exit_accepted io" "jsonParse io = Some commands"
      "get_prop commands ''error'' = Inr err" "\<not> truthy err"
      "get_prop commands ''commands'' = Inr (JArr xs)" "xs \<noteq> []"
      by auto
    have shown: "quick_picks (fst (executeCommand io w)) = [options]"
      using g options(1) by (rule executeCommand_shows_options)
    have run: "executeCommand io w =
             ([ShowInputBox, WithProgress ''AI CLI'', ProgressReport ''Generating commands...'',
               Exec (command_line (scriptPath io) query)] @ fst (snd (acquire_terminal w)) @
              [ShowQuickPick options] @ map (\<lambda>i. SendText (terminal_of w) (JStr (cs ! i))) is,
              snd (snd (acquire_terminal w))) \<and>
           sent_texts (fst (executeCommand io w)) = map (\<lambda>i. (terminal_of w, JStr (cs ! i))) is"
      if sel: "is \<noteq> [] \<and> (\<forall>i\<in>set is. i < length cs) \<and> quickPick io = Some (map ((!) options) is)" for "is"
    proof -
      let ?sent = "map (\<lambda>i. SendText (terminal_of w) (JStr (cs ! i))) is"
      from sel sent [of "is" "terminal_of w"]
      have "execute_selected xs (terminal_of w) (quickPick io) = (?sent, None)"
        by (simp add: execute_selected_def)
      from executeCommand_generated [OF g options(1) this]
      have run: "executeCommand io w =
             ([ShowInputBox, WithProgress ''AI CLI'', ProgressReport ''Generating commands...'',
               Exec (command_line (scriptPath io) query)] @ fst (snd (acquire_terminal w)) @
              [ShowQuickPick options] @ ?sent, snd (snd (acquire_terminal w)))"
        by simp
      have "sent_texts ?sent = map (\<lambda>i. (terminal_of w, JStr (cs ! i))) is"
        by (induction "is") simp_all
      then have "sent_texts (fst (executeCommand io w)) = map (\<lambda>i. (terminal_of w, JStr (cs ! i))) is"
        by (simp add: run acquire_terminal_eq sent_texts_append)
      with run show ?thesis by blast
    qed
    from shown run show ?thesis by blast
  qed
  show ?thesis
  proof (intro exI [of _ options] conjI impI allI)
    show "make_options 0 xs = Inr options" "length options = length cs"
      by (fact options)+
  next
    fix i assume "i < length cs"
    then show "label (options ! i) = nat_to_string (i + 1) @ '': '' @ cs ! i"
      "selected_index (options ! i) = Some (int i)"
      "element_at xs (selected_index (options ! i)) = xs ! i"
      "get_prop (xs ! i) ''command'' = Inr (JStr (cs ! i))"
      by (rule labels index elem cmd)+
  next
    fix "is" assume "\<forall>i\<in>set is. i < length cs"
    then show "send_selected xs t (map ((!) options) is) = (map (\<lambda>i. SendText t (JStr (cs ! i))) is, None)"
      by (rule sent)
  next
    assume gen: "inputBox io = Some query \<and> query \<noteq> [] \<and> exit_accepted io \<and> jsonParse io = Some commands \<and>
      get_prop commands ''error'' = Inr err \<and> \<not> truthy err \<and>
      get_prop commands ''commands'' = Inr (JArr xs) \<and> cs \<noteq> []"
    from handler [OF gen] show "quick_picks (fst (executeCommand io w)) = [options]"
      by (rule conjunct1)
    fix "is"
    assume sel: "is \<noteq> [] \<and> (\<forall>i\<in>set is. i < length cs) \<and> quickPick io = Some (map ((!) options) is)"
    from handler [OF gen] sel show "executeCommand io w =
             ([ShowInputBox, WithProgress ''AI CLI'', ProgressReport ''Generating commands...'',
               Exec (command_line (scriptPath io) query)] @ fst (snd (acquire_terminal w)) @
              [ShowQuickPick options] @ map (\<lambda>i. SendText (terminal_of w) (JStr (cs ! i))) is,
              snd (snd (acquire_terminal w)))"
      "sent_texts (fst (executeCommand io w)) = map (\<lambda>i. (terminal_of w, JStr (cs ! i))) is"
      by blast+
  qed
qed


theorem label_resolves_to_candidate_witness:
  "list_all2 has_command
     [JObj [(''command'', JStr ''docker ps -a''), (''description'', JStr ''List all containers''),
            (''safety_level'', JStr ''safe'')],
      JObj [(''command'', JStr ''echo 4:5''), (''description'', JStr ''Print''),
            (''safety_level'', JStr ''safe'')]]
     [''docker ps -a'', ''echo 4:5''] \<and>
   (\<exists>options.
      make_options 0
        [JObj [(''command'', JStr ''docker ps -a''), (''description'', JStr ''List all containers''),
               (''safety_level'', JStr ''safe'')],
         JObj [(''command'', JStr ''echo 4:5''), (''description'', JStr ''Print''),
               (''safety_level'', JStr ''safe'')]] = Inr options \<and>
      label (options ! 1) = ''2: echo 4:5'' \<and>
      selected_index (options ! 1) = Some 1 \<and>
      quick_picks (fst (executeCommand
        \<lparr>inputBox = Some ''show ports'', scriptPath = ''/ext/clio.py'', execError = None,
      stdout = ''{}'', stderr = '''',
      jsonParse = Some (JObj [(''commands'', JArr
          [JObj [(''command'', JStr ''docker ps -a''), (''description'', JStr ''List all containers''),
                 (''safety_level'', JStr ''safe'')],
           JObj [(''command'', JStr ''echo 4:5''), (''description'', JStr ''Print''),
                 (''safety_level'', JStr ''safe'')]])]),
      quickPick = Some [\<lparr>label = ''2: echo 4:5'', description = JStr ''Print'', detail = ''Safety: safe''\<rparr>,
                        \<lparr>label = ''1: docker ps -a'', description = JStr ''List all containers'',
                           detail = ''Safety: safe''\<rparr>]\<rparr>
        \<lparr>activeTerminal = None, terminalCount = 0\<rparr>)) = [options] \<and>
      sent_texts (fst (executeCommand
        \<lparr>inputBox = Some ''show ports'', scriptPath = ''/ext/clio.py'', execError = None,
      stdout = ''{}'', stderr = '''',
      jsonParse = Some (JObj [(''commands'', JArr
          [JObj [(''command'', JStr ''docker ps -a''), (''description'', JStr ''List all containers''),
                 (''safety_level'', JStr ''safe'')],
           JObj [(''command'', JStr ''echo 4:5''), (''description'', JStr ''Print''),
                 (''safety_level'', JStr ''safe'')]])]),
      quickPick = Some [\<lparr>label = ''2: echo 4:5'', description = JStr ''Print'', detail = ''Safety: safe''\<rparr>,
                        \<lparr>label = ''1: docker ps -a'', description = JStr ''List all containers'',
                           detail = ''Safety: safe''\<rparr>]\<rparr>
        \<lparr>activeTerminal = None, terminalCount = 0\<rparr>)) = [(0, JStr ''echo 4:5''), (0, JStr ''docker ps -a'')])"
proof -
  let ?xs = "[JObj [(''command'', JStr ''docker ps -a''), (''description'', JStr ''List all containers''),
            (''safety_level'', JStr ''safe'')],
      JObj [(''command'', JStr ''echo 4:5''), (''description'', JStr ''Print''),
            (''safety_level'', JStr ''safe'')]]"
  let ?cs = "[''docker ps -a'', ''echo 4:5'']"
  let ?io = "\<lparr>inputBox = Some ''show ports'', scriptPath = ''/ext/clio.py'', execError = None,
      stdout = ''{}'', stderr = '''',
      jsonParse = Some (JObj [(''commands'', JArr
          [JObj [(''command'', JStr ''docker ps -a''), (''description'', JStr ''List all containers''),
                 (''safety_level'', JStr ''safe'')],
           JObj [(''command'', JStr ''echo 4:5''), (''description'', JStr ''Print''),
                 (''safety_level'', JStr ''safe'')]])]),
      quickPick = Some [\<lparr>label = ''2: echo 4:5'', description = JStr ''Print'', detail = ''Safety: safe''\<rparr>,
                        \<lparr>label = ''1: docker ps -a'', description = JStr ''List all containers'',
                           detail = ''Safety: safe''\<rparr>]\<rparr>"
  let ?w = "\<lparr>activeTerminal = None, terminalCount = 0\<rparr>"
  have h: "list_all2 has_command ?xs ?cs"
    by (simp add: has_command_def)
  from label_resolves_to_candidate [OF h, where io = ?io and query = "''show ports''"
      and commands = "JObj [(''commands'', JArr ?xs)]" and err = JUndefined and w = ?w]
  obtain options where
    o: "make_options 0 ?xs = Inr options"
    and l: "\<forall>i<length ?cs. label (options ! i) = nat_to_string (i + 1) @ '': '' @ ?cs ! i \<and>
        selected_index (options ! i) = Some (int i) \<and>
        element_at ?xs (selected_index (options ! i)) = ?xs ! i \<and>
        get_prop (?xs ! i) ''command'' = Inr (JStr (?cs ! i))"
    and r: "inputBox ?io = Some ''show ports'' \<and> ''show ports'' \<noteq> [] \<and> exit_accepted ?io \<and>
      jsonParse ?io = Some (JObj [(''commands'', JArr ?xs)]) \<and>
      get_prop (JObj [(''commands'', JArr ?xs)]) ''error'' = Inr JUndefined \<and> \<not> truthy JUndefined \<and>
      get_prop (JObj [(''commands'', JArr ?xs)]) ''commands'' = Inr (JArr ?xs) \<and> ?cs \<noteq> [] \<longrightarrow>
        quick_picks (fst (executeCommand ?io ?w)) = [options] \<and>
        (\<forall>is. is \<noteq> [] \<and> (\<forall>i\<in>set is. i < length ?cs) \<and> quickPick ?io = Some (map ((!) options) is) \<longrightarrow>
           executeCommand ?io ?w =
             ([ShowInputBox, WithProgress ''AI CLI'', ProgressReport ''Generating commands...'',
               Exec (command_line (scriptPath ?io) ''show ports'')] @ fst (snd (acquire_terminal ?w)) @
              [ShowQuickPick options] @ map (\<lambda>i. SendText (terminal_of ?w) (JStr (?cs ! i))) is,
              snd (snd (acquire_terminal ?w))) \<and>
           sent_texts (fst (executeCommand ?io ?w)) = map (\<lambda>i. (terminal_of ?w, JStr (?cs ! i))) is)"
    by blast
  have "make_options 0 ?xs =
      Inr [\<lparr>label = ''1: docker ps -a'', description = JStr ''List all containers'', detail = ''Safety: safe''\<rparr>,
           \<lparr>label = ''2: echo 4:5'', description = JStr ''Print'', detail = ''Safety: safe''\<rparr>]"
    by (simp add: make_option_def nat_to_string_small)
  with o have options: "options =
      [\<lparr>label = ''1: docker ps -a'', description = JStr ''List all containers'', detail = ''Safety: safe''\<rparr>,
       \<lparr>label = ''2: echo 4:5'', description = JStr ''Print'', detail = ''Safety: safe''\<rparr>]"
    by simp
  have lab: "label (options ! 1) = ''2: echo 4:5''"
    by (simp add: options)
  from l have idx: "selected_index (options ! 1) = Some 1"
    by simp
  have gen: "inputBox ?io = Some ''show ports'' \<and> ''show ports'' \<noteq> [] \<and> exit_accepted ?io \<and>
      jsonParse ?io = Some (JObj [(''commands'', JArr ?xs)]) \<and>
      get_prop (JObj [(''commands'', JArr ?xs)]) ''error'' = Inr JUndefined \<and> \<not> truthy JUndefined \<and>
      get_prop (JObj [(''commands'', JArr ?xs)]) ''commands'' = Inr (JArr ?xs) \<and> ?cs \<noteq> []"
    by (simp add: exit_accepted_def)
  note handler = r [THEN mp, OF gen]
  note shown = handler [THEN conjunct1]
  have sel: "[1, 0 :: nat] \<noteq> [] \<and> (\<forall>i\<in>set [1, 0 :: nat]. i < length ?cs) \<and>
      quickPick ?io = Some (map ((!) options) [1, 0])"
    by (simp add: options)
  note texts = handler [THEN conjunct2, THEN spec, of "[1, 0]", THEN mp, OF sel, THEN conjunct2]
  have sent: "sent_texts (fst (executeCommand ?io ?w)) = [(0, JStr ''echo 4:5''), (0, JStr ''docker ps -a'')]"
    using texts by (simp add: terminal_of_def)
  show ?thesis
    by (rule conjI [OF h], rule exI [of _ options], intro conjI) (rule o lab idx shown sent)+
qed

section \<open>The query on the command line\<close>

text \<open>
  C2, where the code departs from it. Line 102 puts the query between double quotes and
  escapes nothing. For the query \<^verbatim>\<open>a" "b\<close> the command line is
  \<^verbatim>\<open>python "/ext/clio.py" "a" "b" --json-only\<close>, which the shell splits into five
  words: the generator receives \<^verbatim>\<open>a\<close> and \<^verbatim>\<open>b\<close> as two arguments, not the query as
  one. A query without quotes, such as \<^verbatim>\<open>a b\<close>, does arrive as one argument.
\<close>

theorem quote_in_query_splits_argument:
  "command_line ''/ext/clio.py'' (''a'' @ [CHR 0x22] @ '' '' @ [CHR 0x22] @ ''b'') =
     ''python '' @ [CHR 0x22] @ ''/ext/clio.py'' @ [CHR 0x22] @ '' '' @
     [CHR 0x22] @ ''a'' @ [CHR 0x22] @ '' '' @ [CHR 0x22] @ ''b'' @ [CHR 0x22] @ '' --json-only'' \<and>
   sh_words (command_line ''/ext/clio.py'' (''a'' @ [CHR 0x22] @ '' '' @ [CHR 0x22] @ ''b'')) =
     Some [''python'', ''/ext/clio.py'', ''a'', ''b'', ''--json-only''] \<and>
   sh_words (command_line ''/ext/clio.py'' ''a b'') =
     Some [''python'', ''/ext/clio.py'', ''a b'', ''--json-only'']"
  by code_simp

end
